theory Spec2Isabelle
  imports Complex_Main "HOL-Library.Char_ord" "HOL-Library.List_Lexorder"
begin

section \<open>The so101arm motion server (server.py)\<close>

text \<open>
  A shallow embedding of the motion-control layer of \<^verbatim>\<open>server.py\<close>: the persistent
  robot session (\<^verbatim>\<open>_get_robot\<close>, \<^verbatim>\<open>_release_robot\<close>, \<^verbatim>\<open>_cleanup_robot\<close>), the mover
  (\<^verbatim>\<open>move\<close>, \<^verbatim>\<open>move_pose\<close>) and the gestures (\<^verbatim>\<open>talk\<close>, \<^verbatim>\<open>nod\<close>, \<^verbatim>\<open>thinking\<close>,
  \<^verbatim>\<open>presenting_talk\<close>, \<^verbatim>\<open>listening\<close>).

  Conventions of the embedding.
  \<^item> Python floats are idealised as \<^typ>\<open>real\<close> (finite values, exact arithmetic);
    \<^verbatim>\<open>fps\<close> is an \<^typ>\<open>int\<close>, as its annotation says.
  \<^item> A dict from channel name to value is an association list in insertion order,
    its keys being distinct in Python.
  \<^item> Everything outside the process is a field of the record \<open>world\<close>: the two
    environment variables, the parsed pose file, the readings the device will
    return, and whether its connect and disconnect calls raise. The calls
    \<^verbatim>\<open>get_observation\<close> and \<^verbatim>\<open>send_action\<close> of a session do not raise here.
  \<^item> Every call made on the device and every \<^verbatim>\<open>time.sleep\<close> is appended to the
    field \<open>trace\<close>, in the order of the calls.
  \<^item> A function of the source that can raise returns \<open>(exn + result, world)\<close>: the
    world after the call is kept also when the call raises.
  \<^item> A leading underscore of a Python name is dropped.
\<close>

subsection \<open>Data\<close>

type_synonym config = "(string \<times> real) list"

datatype exn = RuntimeError | ConnectionError | KeyError string | TransportError string

datatype event =
    Connect nat
  | Disconnect nat
  | GetObservation nat
  | SendAction nat config
  | Sleep real

record world =
  ROBOT_PORT :: "string option"
  ROBOT_ID :: "string option"
  saved_positions :: "(string \<times> config) list option"
  ROBOT :: "nat option"
  next_object :: nat
  connect_raises :: "exn option"
  disconnect_raises :: "exn option"
  readings :: "nat \<Rightarrow> config"
  reads :: nat
  trace :: "event list"

text \<open>\<^verbatim>\<open>_PERSIST = True\<close>: one robot connection is kept for the whole process.\<close>

definition PERSIST :: bool where
  "PERSIST = True"

subsection \<open>What the trace holds\<close>

fun sent_of :: "event \<Rightarrow> config list" where
  "sent_of (SendAction r a) = [a]"
| "sent_of e = []"

definition sent_actions :: "event list \<Rightarrow> config list" where
  "sent_actions tr = concat (map sent_of tr)"

fun slept_of :: "event \<Rightarrow> real list" where
  "slept_of (Sleep d) = [d]"
| "slept_of e = []"

definition sleeps :: "event list \<Rightarrow> real list" where
  "sleeps tr = concat (map slept_of tr)"

fun is_connect :: "event \<Rightarrow> bool" where
  "is_connect (Connect r) = True"
| "is_connect e = False"

definition connects :: "event list \<Rightarrow> nat" where
  "connects tr = length (filter is_connect tr)"

subsection \<open>The device transport and the clock\<close>

text \<open>\<^verbatim>\<open>SO101Follower(cfg)\<close>: a new object, named by the next free number.\<close>

definition SO101Follower :: "string \<times> string \<Rightarrow> world \<Rightarrow> nat \<times> world" where
  "SO101Follower c w = (next_object w, w\<lparr>next_object := Suc (next_object w)\<rparr>)"

definition connect :: "nat \<Rightarrow> world \<Rightarrow> (exn + unit) \<times> world" where
  "connect r w =
     (let w1 = w\<lparr>trace := trace w @ [Connect r]\<rparr>
      in case connect_raises w of Some e \<Rightarrow> (Inl e, w1) | None \<Rightarrow> (Inr (), w1))"

definition disconnect :: "nat \<Rightarrow> world \<Rightarrow> (exn + unit) \<times> world" where
  "disconnect r w =
     (let w1 = w\<lparr>trace := trace w @ [Disconnect r]\<rparr>
      in case disconnect_raises w of Some e \<Rightarrow> (Inl e, w1) | None \<Rightarrow> (Inr (), w1))"

definition get_observation :: "nat \<Rightarrow> world \<Rightarrow> config \<times> world" where
  "get_observation r w =
     (readings w (reads w),
      w\<lparr>reads := Suc (reads w), trace := trace w @ [GetObservation r]\<rparr>)"

definition send_action :: "nat \<Rightarrow> config \<Rightarrow> world \<Rightarrow> world" where
  "send_action r a w = w\<lparr>trace := trace w @ [SendAction r a]\<rparr>"

definition sleep :: "real \<Rightarrow> world \<Rightarrow> world" where
  "sleep d w = w\<lparr>trace := trace w @ [Sleep d]\<rparr>"

subsection \<open>Utilities\<close>

text \<open>Python's \<^verbatim>\<open>not s\<close> for a value that is \<^verbatim>\<open>None\<close> or a string.\<close>

fun py_not :: "string option \<Rightarrow> bool" where
  "py_not None = True"
| "py_not (Some s) = (s = [])"

text \<open>Python's \<^verbatim>\<open>int(x)\<close> of a float: truncation towards zero.\<close>

definition py_int :: "real \<Rightarrow> int" where
  "py_int x = (if 0 \<le> x then \<lfloor>x\<rfloor> else \<lceil>x\<rceil>)"

definition endswith :: "string \<Rightarrow> string \<Rightarrow> bool" where
  "endswith s suffix =
     (length suffix \<le> length s \<and> drop (length s - length suffix) s = suffix)"

definition cfg :: "world \<Rightarrow> exn + (string \<times> string)" where
  "cfg w =
     (if py_not (ROBOT_PORT w) \<or> py_not (ROBOT_ID w) then Inl RuntimeError
      else case (ROBOT_PORT w, ROBOT_ID w) of
             (Some port, Some rid) \<Rightarrow> Inr (port, rid)
           | _ \<Rightarrow> Inl RuntimeError)"

definition load_poses :: "world \<Rightarrow> (string \<times> config) list" where
  "load_poses w = (case saved_positions w of None \<Rightarrow> [] | Some poses \<Rightarrow> poses)"

definition valid_keys :: "nat \<Rightarrow> world \<Rightarrow> string set \<times> world" where
  "valid_keys r w =
     (let (obs, w1) = get_observation r w
      in (set (filter (\<lambda>k. endswith k ''.pos'') (map fst obs)), w1))"

definition ease_in_out_quad :: "real \<Rightarrow> real" where
  "ease_in_out_quad t = (if t < 0.5 then 2 * t * t else 1 - ((- 2 * t + 2) ^ 2) / 2)"

subsection \<open>The persistent robot session\<close>

text \<open>
  The body of \<^verbatim>\<open>_get_robot\<close> under \<^verbatim>\<open>_PERSIST\<close> runs inside \<^verbatim>\<open>with _LOCK\<close>, and so
  does the body of \<^verbatim>\<open>_cleanup_robot\<close>: each is one step on the world.
\<close>

definition get_robot :: "world \<Rightarrow> (exn + nat) \<times> world" where
  "get_robot w =
     (if \<not> PERSIST then
        (case cfg w of
           Inl e \<Rightarrow> (Inl e, w)
         | Inr c \<Rightarrow>
             (let (r, w1) = SO101Follower c w
              in case connect r w1 of
                   (Inl e, w2) \<Rightarrow> (Inl e, w2)
                 | (Inr u, w2) \<Rightarrow> (Inr r, w2)))
      else
        (case ROBOT w of
           None \<Rightarrow>
             (case cfg w of
                Inl e \<Rightarrow> (Inl e, w)
              | Inr c \<Rightarrow>
                  (let (r, w1) = SO101Follower c w;
                       w2 = w1\<lparr>ROBOT := Some r\<rparr>
                   in case connect r w2 of
                        (Inl e, w3) \<Rightarrow> (Inl e, w3)
                      | (Inr u, w3) \<Rightarrow> (Inr r, w3)))
         | Some r \<Rightarrow> (Inr r, w)))"

text \<open>\<^verbatim>\<open>try: ... except Exception: pass\<close> around a call that returns nothing.\<close>

fun except_pass :: "(exn + unit) \<times> world \<Rightarrow> (exn + unit) \<times> world" where
  "except_pass (Inl e, w) = (Inr (), w)"
| "except_pass (Inr u, w) = (Inr u, w)"

definition release_robot :: "nat \<Rightarrow> world \<Rightarrow> (exn + unit) \<times> world" where
  "release_robot r w =
     (if PERSIST then (Inr (), w) else except_pass (disconnect r w))"

definition cleanup_robot :: "world \<Rightarrow> (exn + unit) \<times> world" where
  "cleanup_robot w =
     (case ROBOT w of
        Some r \<Rightarrow>
          (case except_pass (disconnect r w) of
             (Inl e, w1) \<Rightarrow> (Inl e, w1)
           | (Inr u, w1) \<Rightarrow> (Inr (), w1\<lparr>ROBOT := None\<rparr>))
      | None \<Rightarrow> (Inr (), w))"

text \<open>
  \<^verbatim>\<open>try: body finally: _release_robot(r)\<close>: the release runs on every exit of the
  body, and an exception of the release replaces the body's outcome.
\<close>

definition finally_release ::
  "nat \<Rightarrow> (exn + bool) \<times> world \<Rightarrow> (exn + bool) \<times> world" where
  "finally_release r out =
     (case release_robot r (snd out) of
        (Inl e, w1) \<Rightarrow> (Inl e, w1)
      | (Inr u, w1) \<Rightarrow> (fst out, w1))"

subsection \<open>The single mover\<close>

text \<open>
  One interpolation frame,
  \<^verbatim>\<open>{k: start[k] + (target[k] - start[k]) * et for k in joint_keys}\<close>;
  a subscript on a missing key raises \<^verbatim>\<open>KeyError\<close>.
\<close>

fun frame :: "config \<Rightarrow> config \<Rightarrow> real \<Rightarrow> string list \<Rightarrow> exn + config" where
  "frame start target et [] = Inr []"
| "frame start target et (k # ks) =
     (case map_of start k of
        None \<Rightarrow> Inl (KeyError k)
      | Some s \<Rightarrow>
          (case map_of target k of
             None \<Rightarrow> Inl (KeyError k)
           | Some g \<Rightarrow>
               (case frame start target et ks of
                  Inl e \<Rightarrow> Inl e
                | Inr f \<Rightarrow> Inr ((k, s + (g - s) * et) # f))))"

text \<open>The loop \<^verbatim>\<open>for i in range(1, steps + 1)\<close>, over the values of \<^verbatim>\<open>i\<close> still to come.\<close>

fun send_frames ::
  "nat \<Rightarrow> config \<Rightarrow> config \<Rightarrow> string list \<Rightarrow> int \<Rightarrow> real \<Rightarrow> int list \<Rightarrow> world
     \<Rightarrow> (exn + unit) \<times> world" where
  "send_frames r start target joint_keys steps dt [] w = (Inr (), w)"
| "send_frames r start target joint_keys steps dt (i # rest) w =
     (let t = real_of_int i / real_of_int steps;
          et = ease_in_out_quad t
      in case frame start target et joint_keys of
           Inl e \<Rightarrow> (Inl e, w)
         | Inr f \<Rightarrow>
             send_frames r start target joint_keys steps dt rest
               (sleep dt (send_action r f w)))"

text \<open>The \<^verbatim>\<open>try\<close> block of \<^verbatim>\<open>move\<close>.\<close>

definition move_body ::
  "nat \<Rightarrow> config \<Rightarrow> real \<Rightarrow> int \<Rightarrow> real \<Rightarrow> world \<Rightarrow> (exn + bool) \<times> world" where
  "move_body r target0 duration fps settle w =
     (let (keys, w1) = valid_keys r w;
          target = filter (\<lambda>(k, v). k \<in> keys) target0
      in if target = [] then (Inr False, w1)
         else if duration \<le> 0 then
           (let w2 = send_action r target w1;
                w3 = (if settle > 0 then sleep settle w2 else w2)
            in (Inr True, w3))
         else
           (let (obs, w2) = get_observation r w1;
                start = filter (\<lambda>(k, v). endswith k ''.pos'') obs;
                joint_keys =
                  sorted_list_of_set (set (map fst start) \<inter> set (map fst target))
            in if joint_keys = [] then (Inr False, w2)
               else
                 (let steps = max 1 (py_int (duration * real_of_int fps));
                      dt = duration / real_of_int steps
                  in case send_frames r start target joint_keys steps dt [1..steps] w2 of
                       (Inl e, w3) \<Rightarrow> (Inl e, w3)
                     | (Inr u, w3) \<Rightarrow>
                         (Inr True, if settle > 0 then sleep settle w3 else w3))))"

definition move :: "config \<Rightarrow> real \<Rightarrow> int \<Rightarrow> real \<Rightarrow> world \<Rightarrow> (exn + bool) \<times> world" where
  "move target duration fps settle w =
     (case get_robot w of
        (Inl e, w1) \<Rightarrow> (Inl e, w1)
      | (Inr r, w1) \<Rightarrow> finally_release r (move_body r target duration fps settle w1))"

text \<open>\<^verbatim>\<open>poses.get(name, {})\<close>.\<close>

definition pose_get :: "(string \<times> config) list \<Rightarrow> string \<Rightarrow> config" where
  "pose_get poses name = (case map_of poses name of None \<Rightarrow> [] | Some pose \<Rightarrow> pose)"

definition move_pose :: "string \<Rightarrow> real \<Rightarrow> int \<Rightarrow> real \<Rightarrow> world \<Rightarrow> (exn + bool) \<times> world" where
  "move_pose name duration fps settle w =
     (let poses = load_poses w;
          pose = pose_get poses name
      in if pose = [] then (Inr False, w)
         else move pose duration fps settle w)"

subsection \<open>Simple actions\<close>

text \<open>\<^verbatim>\<open>cycles = max(1, int(seconds / (2.0 * dwell)))\<close>, as all three gestures compute it.\<close>

definition cycles_of :: "real \<Rightarrow> real \<Rightarrow> int" where
  "cycles_of seconds dwell = max 1 (py_int (seconds / (2.0 * dwell)))"

text \<open>
  The loop \<^verbatim>\<open>for _ in range(cycles)\<close> of the three gestures: send the first pose,
  sleep, send the second pose, sleep.
\<close>

fun cycle_loop :: "nat \<Rightarrow> config \<Rightarrow> config \<Rightarrow> real \<Rightarrow> nat \<Rightarrow> world \<Rightarrow> world" where
  "cycle_loop r first second dwell 0 w = w"
| "cycle_loop r first second dwell (Suc n) w =
     cycle_loop r first second dwell n
       (sleep dwell (send_action r second (sleep dwell (send_action r first w))))"

definition talk_body :: "nat \<Rightarrow> real \<Rightarrow> real \<Rightarrow> world \<Rightarrow> (exn + bool) \<times> world" where
  "talk_body r seconds dwell w =
     (let (keys, w1) = valid_keys r w
      in if ''gripper.pos'' \<notin> keys then (Inr False, w1)
         else
           (let cycles = cycles_of seconds dwell;
                open_pose = [(''gripper.pos'', 12.7)];
                close_pose = [(''gripper.pos'', 0.0)]
            in (Inr True, cycle_loop r open_pose close_pose dwell (nat cycles) w1)))"

definition talk :: "real \<Rightarrow> real \<Rightarrow> world \<Rightarrow> (exn + bool) \<times> world" where
  "talk seconds dwell w =
     (if seconds \<le> 0 \<or> dwell \<le> 0 then (Inr True, w)
      else case get_robot w of
             (Inl e, w1) \<Rightarrow> (Inl e, w1)
           | (Inr r, w1) \<Rightarrow> finally_release r (talk_body r seconds dwell w1))"

text \<open>\<^verbatim>\<open>obs.get(key, 0.0)\<close>.\<close>

definition obs_get :: "config \<Rightarrow> string \<Rightarrow> real \<Rightarrow> real" where
  "obs_get obs k d = (case map_of obs k of None \<Rightarrow> d | Some v \<Rightarrow> v)"

definition nod_body :: "nat \<Rightarrow> real \<Rightarrow> real \<Rightarrow> real \<Rightarrow> world \<Rightarrow> (exn + bool) \<times> world" where
  "nod_body r seconds dwell delta w =
     (let (keys, w1) = valid_keys r w
      in if ''wrist_flex.pos'' \<notin> keys then (Inr False, w1)
         else
           (let (obs, w2) = get_observation r w1;
                base = obs_get obs ''wrist_flex.pos'' 0.0;
                up = [(''wrist_flex.pos'', base + delta)];
                down = [(''wrist_flex.pos'', base - delta)];
                cycles = cycles_of seconds dwell
            in (Inr True, cycle_loop r down up dwell (nat cycles) w2)))"

definition nod :: "real \<Rightarrow> real \<Rightarrow> real \<Rightarrow> world \<Rightarrow> (exn + bool) \<times> world" where
  "nod seconds dwell delta w =
     (if seconds \<le> 0 \<or> dwell \<le> 0 then (Inr True, w)
      else case get_robot w of
             (Inl e, w1) \<Rightarrow> (Inl e, w1)
           | (Inr r, w1) \<Rightarrow> finally_release r (nod_body r seconds dwell delta w1))"

definition thinking_body ::
  "nat \<Rightarrow> real \<Rightarrow> real \<Rightarrow> real \<Rightarrow> real \<Rightarrow> world \<Rightarrow> (exn + bool) \<times> world" where
  "thinking_body r seconds dwell roll_hi roll_lo w =
     (let (keys, w1) = valid_keys r w
      in if ''wrist_roll.pos'' \<notin> keys then (Inr False, w1)
         else
           (let cycles = cycles_of seconds dwell;
                hi_pose = [(''wrist_roll.pos'', roll_hi)];
                lo_pose = [(''wrist_roll.pos'', roll_lo)]
            in (Inr True, cycle_loop r lo_pose hi_pose dwell (nat cycles) w1)))"

definition thinking :: "real \<Rightarrow> real \<Rightarrow> real \<Rightarrow> real \<Rightarrow> world \<Rightarrow> (exn + bool) \<times> world" where
  "thinking seconds dwell roll_hi roll_lo w =
     (if seconds \<le> 0 \<or> dwell \<le> 0 then (Inr True, w)
      else case get_robot w of
             (Inl e, w1) \<Rightarrow> (Inl e, w1)
           | (Inr r, w1) \<Rightarrow>
               finally_release r (thinking_body r seconds dwell roll_hi roll_lo w1))"

subsection \<open>Composite gestures\<close>

definition presenting_talk :: "real \<Rightarrow> real \<Rightarrow> real \<Rightarrow> world \<Rightarrow> (exn + bool) \<times> world" where
  "presenting_talk seconds settle dwell w =
     (let poses = load_poses w;
          presenting = pose_get poses ''presenting''
      in if presenting = [] then (Inr False, w)
         else case move presenting settle 30 0.0 w of
                (Inl e, w1) \<Rightarrow> (Inl e, w1)
              | (Inr ok, w1) \<Rightarrow>
                  if \<not> ok then (Inr False, w1) else talk seconds dwell w1)"

definition listening :: "real \<Rightarrow> real \<Rightarrow> real \<Rightarrow> real \<Rightarrow> world \<Rightarrow> (exn + bool) \<times> world" where
  "listening seconds settle dwell delta w =
     (let poses = load_poses w;
          presenting = pose_get poses ''presenting''
      in if presenting = [] then (Inr False, w)
         else case move presenting settle 30 0.0 w of
                (Inl e, w1) \<Rightarrow> (Inl e, w1)
              | (Inr ok, w1) \<Rightarrow>
                  if \<not> ok then (Inr False, w1) else nod seconds dwell delta w1)"

subsection \<open>Acquisitions in sequence\<close>

text \<open>
  \<^verbatim>\<open>_get_robot\<close> called \<open>n\<close> times, one call after the other, with the outcome of each
  call. Calls from several threads run in such a sequence, whatever their
  order: the body of the function is guarded by \<^verbatim>\<open>_LOCK\<close> from its first line to
  its return.
\<close>

fun acquire_many :: "nat \<Rightarrow> world \<Rightarrow> (exn + nat) list \<times> world" where
  "acquire_many 0 w = ([], w)"
| "acquire_many (Suc n) w =
     (let (x, w1) = get_robot w;
          (xs, w2) = acquire_many n w1
      in (x # xs, w2))"

subsection \<open>Reading a frame\<close>


section \<open>Example worlds\<close>

text \<open>
  A configured process that has not yet used the arm; the device reports three
  position channels and one channel that is no position.
\<close>

definition demo_world :: world where
  "demo_world =
     \<lparr>ROBOT_PORT = Some ''/dev/ttyACM0'', ROBOT_ID = Some ''follower'',
      saved_positions = Some [(''presenting'', [(''gripper.pos'', 5)])],
      ROBOT = None, next_object = 0,
      connect_raises = None, disconnect_raises = None,
      readings = (\<lambda>n. [(''gripper.pos'', 0), (''wrist_flex.pos'', 10),
                        (''wrist_roll.pos'', 1), (''camera'', 0)]),
      reads = 0, trace = []\<rparr>"

text \<open>The demo process after its first acquisition.\<close>

definition acquired_world :: world where
  "acquired_world = demo_world\<lparr>next_object := Suc 0, ROBOT := Some 0, trace := [Connect 0]\<rparr>"

text \<open>The same process with \<^verbatim>\<open>ROBOT_PORT\<close> unset, and with \<^verbatim>\<open>ROBOT_ID\<close> empty.\<close>

definition unconfigured_world :: world where
  "unconfigured_world = demo_world\<lparr>ROBOT_PORT := None\<rparr>"

definition no_id_world :: world where
  "no_id_world = demo_world\<lparr>ROBOT_ID := Some []\<rparr>"

text \<open>A process holding a session whose disconnect call will raise.\<close>

definition connected_world :: world where
  "connected_world =
     demo_world\<lparr>ROBOT := Some 0, next_object := 1, trace := [Connect 0],
       disconnect_raises := Some (TransportError ''port closed'')\<rparr>"



text \<open>
  A process without a pose file, and one whose \<^verbatim>\<open>presenting\<close> pose names a channel
  that the device does not have.
\<close>

definition no_pose_world :: world where
  "no_pose_world = demo_world\<lparr>saved_positions := None\<rparr>"

definition stale_pose_world :: world where
  "stale_pose_world =
     demo_world\<lparr>saved_positions := Some [(''presenting'', [(''elbow_flex.pos'', 3)])]\<rparr>"

section \<open>Properties\<close>

subsection \<open>Reading the trace\<close>

lemma sent_actions_simps [simp]:
  "sent_actions [] = []"
  "sent_actions (tr @ tr') = sent_actions tr @ sent_actions tr'"
  "sent_actions (e # tr) = sent_of e @ sent_actions tr"
  by (simp_all add: sent_actions_def)

lemma sleeps_simps [simp]:
  "sleeps [] = []"
  "sleeps (tr @ tr') = sleeps tr @ sleeps tr'"
  "sleeps (e # tr) = slept_of e @ sleeps tr"
  by (simp_all add: sleeps_def)

lemma connects_simps [simp]:
  "connects [] = 0"
  "connects (tr @ tr') = connects tr + connects tr'"
  "connects (e # tr) = (if is_connect e then 1 else 0) + connects tr"
  by (simp_all add: connects_def)

lemma valid_keys_eq:
  "valid_keys r w =
     (set (filter (\<lambda>k. endswith k ''.pos'') (map fst (readings w (reads w)))),
      w\<lparr>reads := Suc (reads w), trace := trace w @ [GetObservation r]\<rparr>)"
  by (simp add: valid_keys_def get_observation_def)

subsection \<open>Acquisition and shutdown\<close>

text \<open>What \<^verbatim>\<open>_get_robot\<close> does, with \<^verbatim>\<open>_PERSIST = True\<close> and \<^verbatim>\<open>_cfg\<close> unfolded.\<close>

lemma get_robot_cases:
  "get_robot w =
     (case ROBOT w of
        Some r \<Rightarrow> (Inr r, w)
      | None \<Rightarrow>
         (if py_not (ROBOT_PORT w) \<or> py_not (ROBOT_ID w) then (Inl RuntimeError, w)
          else (case connect_raises w of Some e \<Rightarrow> Inl e | None \<Rightarrow> Inr (next_object w),
                w\<lparr>next_object := Suc (next_object w), ROBOT := Some (next_object w),
                  trace := trace w @ [Connect (next_object w)]\<rparr>)))"
  by (cases "ROBOT_PORT w"; cases "ROBOT_ID w")
     (auto simp: get_robot_def PERSIST_def cfg_def SO101Follower_def connect_def Let_def
        split: option.splits)

lemma get_robot_sent:
  "sent_actions (trace (snd (get_robot w))) = sent_actions (trace w)"
  by (simp add: get_robot_cases split: option.splits)


lemma finally_release_eq [simp]: "finally_release r out = out"
  by (simp add: finally_release_def release_robot_def PERSIST_def)

subsection \<open>The demo world, evaluated\<close>

lemma demo_acquire: "get_robot demo_world = (Inr 0, acquired_world)"
  by (simp add: get_robot_cases demo_world_def acquired_world_def)

lemma demo_keys:
  "fst (valid_keys r acquired_world) = {''gripper.pos'', ''wrist_flex.pos'', ''wrist_roll.pos''}"
  by (simp add: valid_keys_eq demo_world_def acquired_world_def endswith_def)

lemma demo_keys_trace:
  "trace (snd (valid_keys r acquired_world)) = [Connect 0, GetObservation r]"
  by (simp add: valid_keys_eq acquired_world_def)

lemma demo_traces [simp]: "trace demo_world = []" "trace acquired_world = [Connect 0]"
  by (simp_all add: demo_world_def acquired_world_def)


text \<open>
  Claim C10. \<^verbatim>\<open>_cleanup_robot\<close> never raises, whatever the disconnect call does; it
  calls disconnect on the stored session when there is one and on nothing
  otherwise; it leaves \<^verbatim>\<open>_ROBOT\<close> at \<^verbatim>\<open>None\<close>; and a second call right after it changes
  nothing at all (no disconnect, no exception).
\<close>

theorem cleanup_robot_idempotent:
  "fst (cleanup_robot w) = Inr ()
   \<and> ROBOT (snd (cleanup_robot w)) = None
   \<and> trace (snd (cleanup_robot w)) =
       trace w @ (case ROBOT w of Some r \<Rightarrow> [Disconnect r] | None \<Rightarrow> [])
   \<and> cleanup_robot (snd (cleanup_robot w)) = (Inr (), snd (cleanup_robot w))"
  by (cases "ROBOT w"; cases "disconnect_raises w")
     (simp_all add: cleanup_robot_def disconnect_def Let_def)

theorem cleanup_robot_idempotent_witness:
  "fst (cleanup_robot connected_world) = Inr ()
   \<and> ROBOT (snd (cleanup_robot connected_world)) = None
   \<and> trace (snd (cleanup_robot connected_world)) = [Connect 0, Disconnect 0]
   \<and> cleanup_robot (snd (cleanup_robot connected_world)) =
       (Inr (), snd (cleanup_robot connected_world))"
  using cleanup_robot_idempotent [of connected_world]
  by (simp add: connected_world_def demo_world_def)

text \<open>
  Claim C2, as stated: with the port or the identifier missing, acquisition raises
  \<^verbatim>\<open>ConnectionError\<close>. It does not: with \<^verbatim>\<open>ROBOT_PORT\<close> unset, \<^verbatim>\<open>_cfg\<close> raises
  \<^verbatim>\<open>RuntimeError\<close>, which is no \<^verbatim>\<open>ConnectionError\<close>.
\<close>

theorem acquire_unconfigured_counterexample:
  "py_not (ROBOT_PORT unconfigured_world)
   \<and> fst (get_robot unconfigured_world) = Inl RuntimeError
   \<and> fst (get_robot unconfigured_world) \<noteq> Inl ConnectionError"
  by (simp add: get_robot_cases unconfigured_world_def demo_world_def)

text \<open>
  Claim C2, amended: when no session is stored yet and the port or the identifier
  is missing (unset or empty), acquisition raises \<^verbatim>\<open>RuntimeError\<close> and leaves the
  world as it was: no session is created and connect is not called.
\<close>

theorem acquire_unconfigured_raises:
  assumes "ROBOT w = None" and "py_not (ROBOT_PORT w) \<or> py_not (ROBOT_ID w)"
  shows "get_robot w = (Inl RuntimeError, w)"
  using assms by (simp add: get_robot_cases)

theorem acquire_unconfigured_raises_witness:
  "ROBOT no_id_world = None
   \<and> (py_not (ROBOT_PORT no_id_world) \<or> py_not (ROBOT_ID no_id_world))
   \<and> get_robot no_id_world = (Inl RuntimeError, no_id_world)"
proof -
  have h1: "ROBOT no_id_world = None"
    by (simp add: no_id_world_def demo_world_def)
  have h2: "py_not (ROBOT_PORT no_id_world) \<or> py_not (ROBOT_ID no_id_world)"
    by (simp add: no_id_world_def demo_world_def)
  show ?thesis using h1 h2 acquire_unconfigured_raises [OF h1 h2] by simp
qed

lemma acquire_many_stored:
  "ROBOT w = Some r \<Longrightarrow> acquire_many n w = (replicate n (Inr r), w)"
  by (induction n) (simp_all add: get_robot_cases)

lemma get_robot_stored:
  "fst (get_robot w) = Inr r \<Longrightarrow> ROBOT (snd (get_robot w)) = Some r"
  by (auto simp: get_robot_cases split: option.splits if_splits)

lemma get_robot_connects:
  "connects (trace (snd (get_robot w))) \<le> connects (trace w) + 1"
  by (simp add: get_robot_cases split: option.splits)

lemma get_robot_unchanged_or_stored:
  "snd (get_robot w) = w \<or> ROBOT (snd (get_robot w)) \<noteq> None"
  by (simp add: get_robot_cases split: option.splits)

lemma acquire_many_connects:
  "connects (trace (snd (acquire_many n w))) \<le> connects (trace w) + 1"
proof (induction n arbitrary: w)
  case 0
  show ?case by simp
next
  case (Suc n)
  have step: "snd (acquire_many (Suc n) w) = snd (acquire_many n (snd (get_robot w)))"
    by (simp add: split_beta)
  from get_robot_unchanged_or_stored [of w] show ?case
  proof
    assume "snd (get_robot w) = w"
    then show ?thesis using Suc.IH [of w] step by simp
  next
    assume "ROBOT (snd (get_robot w)) \<noteq> None"
    then obtain r where "ROBOT (snd (get_robot w)) = Some r" by blast
    then have "snd (acquire_many n (snd (get_robot w))) = snd (get_robot w)"
      by (simp add: acquire_many_stored)
    then show ?thesis using step get_robot_connects [of w] by simp
  qed
qed

text \<open>
  Claim C9. Under the persistent policy, any number of acquisitions, from any
  state, call connect at most once between them; and once an acquisition has
  returned a session, every later acquisition returns that same session and
  changes nothing, so it does not connect. Two acquisitions from different
  threads are two acquisitions in one of the two orders, since \<^verbatim>\<open>_LOCK\<close> is held
  for the whole body.
\<close>

theorem persistent_session_single_connect:
  "connects (trace (snd (acquire_many n w))) \<le> connects (trace w) + 1
   \<and> (fst (get_robot w) = Inr r \<longrightarrow>
        acquire_many n (snd (get_robot w)) = (replicate n (Inr r), snd (get_robot w)))"
  using acquire_many_connects [of n w] get_robot_stored [of w r]
  by (simp add: acquire_many_stored)

theorem persistent_session_single_connect_witness:
  "fst (get_robot demo_world) = Inr 0
   \<and> acquire_many 2 (snd (get_robot demo_world)) = ([Inr 0, Inr 0], acquired_world)
   \<and> connects (trace (snd (acquire_many 3 demo_world))) \<le> 1"
proof -
  have h: "fst (get_robot demo_world) = Inr 0" by (simp add: demo_acquire)
  have r2: "replicate 2 x = [x, x]" for x :: "exn + nat" by (simp add: numeral_2_eq_2)
  show ?thesis
    using h persistent_session_single_connect [of 3 demo_world 0]
      persistent_session_single_connect [of 2 demo_world 0]
    by (simp add: demo_acquire r2)
qed

subsection \<open>The mover\<close>

lemma filter_keys_Nil:
  "filter (\<lambda>(k, v). k \<in> K) target = [] \<longleftrightarrow> fst ` set target \<inter> K = {}"
  by (auto simp: filter_empty_conv)








lemma sent_frames [simp]:
  "sent_actions (concat (map (\<lambda>i. [SendAction r (F i), Sleep d]) idx)) = map F idx"
  by (induction idx) simp_all

lemma slept_frames [simp]:
  "sleeps (concat (map (\<lambda>i. [SendAction r (F i), Sleep d]) idx)) = replicate (length idx) d"
  by (induction idx) simp_all


subsection \<open>What the mover sends\<close>




text \<open>
  Claim C4. Once a session is acquired, a target none of whose keys is an
  actionable position channel makes \<^verbatim>\<open>move\<close> return \<^verbatim>\<open>False\<close> after the one
  observation read, with nothing sent, whatever the duration, rate and settle.
\<close>

theorem move_no_valid_keys:
  assumes "get_robot w = (Inr r, w1)"
    and "fst ` set target \<inter> fst (valid_keys r w1) = {}"
  shows "move target duration fps settle w = (Inr False, snd (valid_keys r w1))
       \<and> trace (snd (move target duration fps settle w)) = trace w1 @ [GetObservation r]
       \<and> sent_actions (trace (snd (move target duration fps settle w))) = sent_actions (trace w)"
proof -
  have f: "filter (\<lambda>(k, v). k \<in> fst (valid_keys r w1)) target = []"
    using assms(2) by (simp add: filter_keys_Nil)
  have m: "move target duration fps settle w = (Inr False, snd (valid_keys r w1))"
    using assms(1) f by (simp add: move_def move_body_def split_beta Let_def)
  have "sent_actions (trace w1) = sent_actions (trace w)"
    using get_robot_sent [of w] assms(1) by simp
  then show ?thesis using m by (simp add: valid_keys_eq)
qed

theorem move_no_valid_keys_witness:
  "get_robot demo_world =
     (Inr 0, acquired_world)
   \<and> fst ` set [(''elbow_flex.pos'', 3), (''camera'', 1)]
       \<inter> fst (valid_keys 0 acquired_world) = {}
   \<and> fst (move [(''elbow_flex.pos'', 3), (''camera'', 1)] (3/2) 30 0 demo_world) = Inr False
   \<and> trace (snd (move [(''elbow_flex.pos'', 3), (''camera'', 1)] (3/2) 30 0 demo_world)) =
       [Connect 0, GetObservation 0]
   \<and> sent_actions (trace (snd (move [(''elbow_flex.pos'', 3), (''camera'', 1)] (3/2) 30 0 demo_world))) = []"
proof -
  have h2: "fst ` set [(''elbow_flex.pos'', 3::real), (''camera'', 1)]
       \<inter> fst (valid_keys 0 acquired_world) = {}"
    by (simp add: demo_keys)
  show ?thesis
    using h2 move_no_valid_keys [OF demo_acquire h2, of "3/2" 30 0]
    by (simp add: demo_acquire demo_keys demo_keys_trace)
qed

text \<open>
  Claim C3. Once a session is acquired, with \<^verbatim>\<open>duration \<le> 0\<close> and a filtered target
  that is not empty, \<^verbatim>\<open>move\<close> returns \<^verbatim>\<open>True\<close>; after the one observation read
  that finds the channels it sends the filtered target once, reads no start
  position, sends no frame, and sleeps only for a positive \<^verbatim>\<open>settle\<close>.
\<close>

theorem move_instant:
  assumes "duration \<le> 0"
    and "get_robot w = (Inr r, w1)"
    and "ftarget = filter (\<lambda>(k, v). k \<in> fst (valid_keys r w1)) target"
    and "ftarget \<noteq> []"
  shows "fst (move target duration fps settle w) = Inr True
       \<and> trace (snd (move target duration fps settle w)) =
           trace w1 @ [GetObservation r, SendAction r ftarget]
             @ (if settle > 0 then [Sleep settle] else [])
       \<and> sent_actions (trace (snd (move target duration fps settle w))) =
           sent_actions (trace w) @ [ftarget]"
proof -
  have s: "sent_actions (trace w1) = sent_actions (trace w)"
    using get_robot_sent [of w] assms(2) by simp
  have m: "move target duration fps settle w =
      (Inr True,
       (if settle > 0 then sleep settle else id)
         (send_action r ftarget (snd (valid_keys r w1))))"
    using assms by (simp add: move_def move_body_def split_beta Let_def)
  show ?thesis
    by (simp add: m s valid_keys_eq send_action_def sleep_def)
qed

theorem move_instant_witness:
  "(0::real) \<le> 0
   \<and> get_robot demo_world =
       (Inr 0, acquired_world)
   \<and> [(''wrist_flex.pos'', 0)] =
       filter (\<lambda>(k, v). k \<in> fst (valid_keys 0
          acquired_world))
        [(''wrist_flex.pos'', 0), (''elbow_flex.pos'', 3)]
   \<and> fst (move [(''wrist_flex.pos'', 0), (''elbow_flex.pos'', 3)] 0 30 (1/2) demo_world) = Inr True
   \<and> trace (snd (move [(''wrist_flex.pos'', 0), (''elbow_flex.pos'', 3)] 0 30 (1/2) demo_world)) =
       [Connect 0, GetObservation 0, SendAction 0 [(''wrist_flex.pos'', 0)], Sleep (1/2)]
   \<and> sent_actions (trace (snd (move [(''wrist_flex.pos'', 0), (''elbow_flex.pos'', 3)] 0 30 (1/2) demo_world))) =
       [[(''wrist_flex.pos'', 0)]]"
proof -
  have h1: "(0::real) \<le> 0" by simp
  have h3: "[(''wrist_flex.pos'', 0::real)] =
       filter (\<lambda>(k, v). k \<in> fst (valid_keys 0
          acquired_world))
        [(''wrist_flex.pos'', 0), (''elbow_flex.pos'', 3)]"
    by (simp add: demo_keys)
  have h4: "[(''wrist_flex.pos'', 0::real)] \<noteq> []" by simp
  show ?thesis
    using h3 move_instant [OF h1 demo_acquire h3 h4, of 30 "1/2"]
    by (simp add: demo_acquire demo_keys demo_keys_trace)
qed

subsection \<open>The easing curve and the last frame\<close>











subsection \<open>Oscillations\<close>

text \<open>
  Claim C6. When \<^verbatim>\<open>seconds \<le> 0\<close> or \<^verbatim>\<open>dwell \<le> 0\<close>, each of \<^verbatim>\<open>talk\<close>, \<^verbatim>\<open>nod\<close> and
  \<^verbatim>\<open>thinking\<close> returns \<^verbatim>\<open>True\<close> and leaves the world as it was: nothing is sent and
  no session is acquired.
\<close>

theorem degenerate_oscillation_noop:
  assumes "seconds \<le> 0 \<or> dwell \<le> 0"
  shows "talk seconds dwell w = (Inr True, w)
       \<and> nod seconds dwell delta w = (Inr True, w)
       \<and> thinking seconds dwell roll_hi roll_lo w = (Inr True, w)"
  using assms by (simp add: talk_def nod_def thinking_def)

theorem degenerate_oscillation_noop_witness:
  "((0::real) \<le> 0 \<or> (1/4::real) \<le> 0)
   \<and> talk 0 (1/4) demo_world = (Inr True, demo_world)
   \<and> nod 0 (1/4) 15 demo_world = (Inr True, demo_world)
   \<and> thinking 0 (1/4) 25.8 (-30.4) demo_world = (Inr True, demo_world)"
  using degenerate_oscillation_noop [of 0 "1/4" demo_world 15 "25.8" "-30.4"] by simp






lemma sent_cycles [simp]:
  "sent_actions (concat (replicate n [SendAction r a, Sleep d, SendAction r b, Sleep d])) =
     concat (replicate n [a, b])"
  by (induction n) simp_all




subsection \<open>Composite gestures\<close>

lemma stale_move:
  "move [(''elbow_flex.pos'', 3)] 1 30 0 stale_pose_world =
     (Inr False,
      stale_pose_world\<lparr>next_object := Suc 0, ROBOT := Some 0, reads := Suc 0,
        trace := [Connect 0, GetObservation 0]\<rparr>)"
  apply (simp add: move_def get_robot_cases stale_pose_world_def demo_world_def)
  apply (simp add: move_body_def valid_keys_eq get_observation_def endswith_def Let_def
      del: set_filter)
  done

text \<open>
  Claim C7. For \<^verbatim>\<open>presenting_talk\<close> and \<^verbatim>\<open>listening\<close>: when the pose named
  \<^verbatim>\<open>presenting\<close> is missing or empty, the gesture returns \<^verbatim>\<open>False\<close> and the world is
  as before; when the move to the pose returns \<^verbatim>\<open>False\<close>, the gesture returns
  \<^verbatim>\<open>False\<close> and the world is as the move left it; and whenever the move does not
  return \<^verbatim>\<open>True\<close>, the gesture ends with the move's own outcome and world. In all
  three cases the oscillation has sent nothing.
\<close>

theorem composite_short_circuit:
  "(pose_get (load_poses w) ''presenting'' = [] \<longrightarrow>
      presenting_talk seconds settle dwell w = (Inr False, w)
    \<and> listening seconds settle dwell delta w = (Inr False, w))
   \<and> (pose_get (load_poses w) ''presenting'' \<noteq> []
      \<and> move (pose_get (load_poses w) ''presenting'') settle 30 0 w = (Inr False, w1) \<longrightarrow>
      presenting_talk seconds settle dwell w = (Inr False, w1)
    \<and> listening seconds settle dwell delta w = (Inr False, w1))
   \<and> (pose_get (load_poses w) ''presenting'' \<noteq> []
      \<and> fst (move (pose_get (load_poses w) ''presenting'') settle 30 0 w) \<noteq> Inr True \<longrightarrow>
      presenting_talk seconds settle dwell w =
        move (pose_get (load_poses w) ''presenting'') settle 30 0 w
    \<and> listening seconds settle dwell delta w =
        move (pose_get (load_poses w) ''presenting'') settle 30 0 w)"
  by (auto simp: presenting_talk_def listening_def Let_def split: prod.splits sum.splits)

theorem composite_short_circuit_witness:
  "pose_get (load_poses no_pose_world) ''presenting'' = []
   \<and> presenting_talk 5 1 (1/4) no_pose_world = (Inr False, no_pose_world)
   \<and> listening 5 1 (1/4) 15 no_pose_world = (Inr False, no_pose_world)
   \<and> pose_get (load_poses stale_pose_world) ''presenting'' = [(''elbow_flex.pos'', 3)]
   \<and> fst (move [(''elbow_flex.pos'', 3)] 1 30 0 stale_pose_world) = Inr False
   \<and> fst (presenting_talk 5 1 (1/4) stale_pose_world) = Inr False
   \<and> fst (listening 5 1 (1/4) 15 stale_pose_world) = Inr False
   \<and> trace (snd (presenting_talk 5 1 (1/4) stale_pose_world)) = [Connect 0, GetObservation 0]
   \<and> trace (snd (listening 5 1 (1/4) 15 stale_pose_world)) = [Connect 0, GetObservation 0]"
proof -
  have a: "pose_get (load_poses no_pose_world) ''presenting'' = []"
    by (simp add: pose_get_def load_poses_def no_pose_world_def demo_world_def)
  have b: "pose_get (load_poses stale_pose_world) ''presenting'' = [(''elbow_flex.pos'', 3)]"
    by (simp add: pose_get_def load_poses_def stale_pose_world_def demo_world_def)
  have c: "fst (move [(''elbow_flex.pos'', 3)] 1 30 0 stale_pose_world) \<noteq> Inr True"
    by (simp add: stale_move)
  show ?thesis
    using a b c stale_move
      composite_short_circuit [of no_pose_world 5 1 "1/4" 15]
      composite_short_circuit [of stale_pose_world 5 1 "1/4" 15
        "stale_pose_world\<lparr>next_object := Suc 0, ROBOT := Some 0, reads := Suc 0,
           trace := [Connect 0, GetObservation 0]\<rparr>"]
    by simp
qed

end
